theory Spec2Isabelle
  imports Main "HOL-Library.AList"
begin

section \<open>Python values of nutshell.py\<close>

text \<open>
  The engine of \<^verbatim>\<open>nutshell.py\<close> is the class \<^verbatim>\<open>ProductServer\<close>: its methods
  \<^verbatim>\<open>run_process\<close>, \<^verbatim>\<open>get_input_list\<close>, \<^verbatim>\<open>run_generator\<close>, \<^verbatim>\<open>make_request\<close> and
  \<^verbatim>\<open>handle_request\<close>, and the nested class \<^verbatim>\<open>ProductRequest\<close>. The embedding keeps
  their names.

  A \<^verbatim>\<open>pathlib.Path\<close> is the list of its components below the root (\<^verbatim>\<open>/a/b\<close> is
  \<open>[''a'', ''b'']\<close>); every path of the engine is made absolute by the source. A
  \<^verbatim>\<open>dict\<close> is an association list in insertion order, written with \<open>AList.update\<close>,
  which like Python keeps the position of a key that is assigned again.

  What a child process writes is a \<^verbatim>\<open>bytes\<close> object, a \<open>string\<close> here. What
  \<^verbatim>\<open>decode\<close> makes of it is a \<^verbatim>\<open>str\<close>, here the list of its code points (\<open>ustring\<close>).
  Names of files and of environment variables stay \<open>string\<close>s.
\<close>

type_synonym path = "string list"

type_synonym env = "(string \<times> string) list"

type_synonym ustring = "nat list"

text \<open>The exceptions the modelled statements can raise and nothing catches.\<close>

datatype error =
  AttributeError | TypeError | FileNotFoundError | UnicodeDecodeError | UnicodeEncodeError

text \<open>
  What an attribute such as \<^verbatim>\<open>task.stdout\<close> holds: \<^verbatim>\<open>None\<close>, a \<^verbatim>\<open>bytes\<close> object
  (what \<^verbatim>\<open>communicate\<close> returns) or a \<^verbatim>\<open>str\<close> (after \<^verbatim>\<open>decode\<close>).
\<close>

datatype pyval = PyNone | PyBytes string | PyStr ustring

fun truthy :: "pyval \<Rightarrow> bool" where
  "truthy PyNone = False"
| "truthy (PyBytes b) = (b \<noteq> [])"
| "truthy (PyStr s) = (s \<noteq> [])"

text \<open>
  What \<^verbatim>\<open>pr.path\<close> and \<^verbatim>\<open>pr.product\<close> hold: \<^verbatim>\<open>None\<close>, the empty string, or a
  \<^verbatim>\<open>Path\<close>. A \<^verbatim>\<open>Path\<close> object is always true in a condition.
\<close>

datatype pathval = NoneVal | EmptyStr | APath path

fun path_truthy :: "pathval \<Rightarrow> bool" where
  "path_truthy (APath p) = True"
| "path_truthy v = False"

subsection \<open>Strings\<close>

text \<open>\<^verbatim>\<open>s.split(sep)\<close> for a one-character separator: always at least one piece.\<close>

fun split_on :: "'a \<Rightarrow> 'a list \<Rightarrow> 'a list list" where
  "split_on sep [] = [[]]"
| "split_on sep (c # cs) =
     (if c = sep then [] # split_on sep cs
      else (case split_on sep cs of [] \<Rightarrow> [[c]] | l # ls \<Rightarrow> (c # l) # ls))"

text \<open>\<^verbatim>\<open>sep.join(xs)\<close>.\<close>

fun join :: "string \<Rightarrow> string list \<Rightarrow> string" where
  "join sep [] = []"
| "join sep [x] = x"
| "join sep (x # y # ys) = x @ sep @ join sep (y # ys)"

subsection \<open>Decoding\<close>

text \<open>
  \<^verbatim>\<open>bytes.decode(encoding='UTF-8')\<close>, strict: the code points of the well-formed
  byte sequences, and \<open>None\<close>, the \<^verbatim>\<open>UnicodeDecodeError\<close>, for a byte that starts
  none (an overlong form, a surrogate, a value above \<^verbatim>\<open>U+10FFFF\<close>, a sequence cut
  short).
\<close>

definition continuation :: "nat \<Rightarrow> bool" where
  "continuation b = (0x80 \<le> b \<and> b \<le> 0xBF)"

text \<open>The range of the second byte after the lead byte \<open>b0\<close> of a longer sequence.\<close>

definition second_byte :: "nat \<Rightarrow> nat \<Rightarrow> bool" where
  "second_byte b0 b =
     (if b0 = 0xE0 then 0xA0 \<le> b \<and> b \<le> 0xBF
      else if b0 = 0xED then 0x80 \<le> b \<and> b \<le> 0x9F
      else if b0 = 0xF0 then 0x90 \<le> b \<and> b \<le> 0xBF
      else if b0 = 0xF4 then 0x80 \<le> b \<and> b \<le> 0x8F
      else continuation b)"

fun decode_utf8 :: "string \<Rightarrow> ustring option" where
  "decode_utf8 [] = Some []"
| "decode_utf8 (c # cs) =
     (if (of_char c :: nat) < 0x80 then map_option (Cons (of_char c)) (decode_utf8 cs)
      else if 0xC2 \<le> (of_char c :: nat) \<and> (of_char c :: nat) \<le> 0xDF then
        (case cs of
           c1 # r \<Rightarrow>
             if continuation (of_char c1)
             then map_option (Cons ((of_char c - 0xC0) * 64 + (of_char c1 - 0x80))) (decode_utf8 r)
             else None
         | [] \<Rightarrow> None)
      else if 0xE0 \<le> (of_char c :: nat) \<and> (of_char c :: nat) \<le> 0xEF then
        (case cs of
           c1 # c2 # r \<Rightarrow>
             if second_byte (of_char c) (of_char c1) \<and> continuation (of_char c2)
             then map_option (Cons ((of_char c - 0xE0) * 4096 + (of_char c1 - 0x80) * 64
                                    + (of_char c2 - 0x80))) (decode_utf8 r)
             else None
         | [c1] \<Rightarrow> None
         | [] \<Rightarrow> None)
      else if 0xF0 \<le> (of_char c :: nat) \<and> (of_char c :: nat) \<le> 0xF4 then
        (case cs of
           c1 # c2 # c3 # r \<Rightarrow>
             if second_byte (of_char c) (of_char c1) \<and> continuation (of_char c2)
                \<and> continuation (of_char c3)
             then map_option (Cons ((of_char c - 0xF0) * 262144 + (of_char c1 - 0x80) * 4096
                                    + (of_char c2 - 0x80) * 64 + (of_char c3 - 0x80)))
                    (decode_utf8 r)
             else None
         | [c1, c2] \<Rightarrow> None
         | [c1] \<Rightarrow> None
         | [] \<Rightarrow> None)
      else None)"

subsection \<open>Text\<close>

text \<open>
  The code points for which \<^verbatim>\<open>str.isspace\<close> holds; \<^verbatim>\<open>str.strip()\<close> removes them at
  both ends.
\<close>

definition uspace :: "nat \<Rightarrow> bool" where
  "uspace c = (c \<in> set [0x9, 0xA, 0xB, 0xC, 0xD, 0x1C, 0x1D, 0x1E, 0x1F,
                             0x20, 0x85, 0xA0, 0x1680, 0x2000, 0x2001,
                             0x2002, 0x2003, 0x2004, 0x2005, 0x2006, 0x2007,
                             0x2008, 0x2009, 0x200A, 0x2028, 0x2029, 0x202F,
                             0x205F, 0x3000])"

definition strip :: "ustring \<Rightarrow> ustring" where
  "strip s = rev (dropWhile uspace (rev (dropWhile uspace s)))"

text \<open>
  The decimal digits of Unicode 14.0, the data of Python 3.11: each code point of
  the list is a digit zero, followed by the digits one to nine of its script.
\<close>

definition decimal_zeros :: "nat list" where
  "decimal_zeros =
     [0x30, 0x660, 0x6F0, 0x7C0, 0x966, 0x9E6, 0xA66, 0xAE6, 0xB66, 0xBE6,
      0xC66, 0xCE6, 0xD66, 0xDE6, 0xE50, 0xED0, 0xF20, 0x1040, 0x1090,
      0x17E0, 0x1810, 0x1946, 0x19D0, 0x1A80, 0x1A90, 0x1B50, 0x1BB0, 0x1C40,
      0x1C50, 0xA620, 0xA8D0, 0xA900, 0xA9D0, 0xA9F0, 0xAA50, 0xABF0, 0xFF10,
      0x104A0, 0x10D30, 0x11066, 0x110F0, 0x11136, 0x111D0, 0x112F0, 0x11450,
      0x114D0, 0x11650, 0x116C0, 0x11730, 0x118E0, 0x11950, 0x11C50, 0x11D50,
      0x11DA0, 0x16A60, 0x16AC0, 0x16B50, 0x1D7CE, 0x1D7D8, 0x1D7E2, 0x1D7EC,
      0x1D7F6, 0x1E140, 0x1E2F0, 0x1E950, 0x1FBF0]"

definition udecimal :: "nat \<Rightarrow> nat option" where
  "udecimal c =
     (case filter (\<lambda>z. z \<le> c \<and> c < z + 10) decimal_zeros of
        [] \<Rightarrow> None
      | z # zs \<Rightarrow> Some (c - z))"

text \<open>
  \<^verbatim>\<open>int(s)\<close> first turns a \<^verbatim>\<open>str\<close> into ASCII: a code point below 127 stays, a
  space becomes a blank, a decimal digit becomes its ASCII digit and anything
  else a question mark.
\<close>

definition to_ascii :: "nat \<Rightarrow> nat" where
  "to_ascii c =
     (if c < 127 then c
      else if uspace c then 0x20
      else (case udecimal c of Some d \<Rightarrow> 0x30 + d | None \<Rightarrow> 0x3F))"

text \<open>The white space the parser of integers skips at both ends: that of C.\<close>

definition c_space :: "nat \<Rightarrow> bool" where
  "c_space c = (c \<in> set [0x09, 0x0A, 0x0B, 0x0C, 0x0D, 0x20])"

definition is_digit :: "nat \<Rightarrow> bool" where
  "is_digit c = (0x30 \<le> c \<and> c \<le> 0x39)"

definition digit_val :: "nat \<Rightarrow> nat" where
  "digit_val c = c - 0x30"

text \<open>
  The digits of a Python integer literal as \<^verbatim>\<open>int(str)\<close> reads them, after the first
  digit: more digits, each optionally preceded by one underscore (\<open>0x5F\<close>).
\<close>

fun py_digits :: "nat \<Rightarrow> ustring \<Rightarrow> nat option" where
  "py_digits acc [] = Some acc"
| "py_digits acc [c] = (if is_digit c then Some (acc * 10 + digit_val c) else None)"
| "py_digits acc (c # d # ds) =
     (if is_digit c then py_digits (acc * 10 + digit_val c) (d # ds)
      else if c = 0x5F \<and> is_digit d then py_digits (acc * 10 + digit_val d) ds
      else None)"

definition py_nat :: "ustring \<Rightarrow> nat option" where
  "py_nat s = (case s of [] \<Rightarrow> None
               | c # cs \<Rightarrow> if is_digit c then py_digits (digit_val c) cs else None)"

text \<open>
  \<^verbatim>\<open>int(s)\<close> on a \<^verbatim>\<open>str\<close>: one sign is allowed (\<open>0x2B\<close>, \<open>0x2D\<close>). \<open>None\<close> stands
  for the \<^verbatim>\<open>ValueError\<close>.
\<close>

definition py_int :: "ustring \<Rightarrow> int option" where
  "py_int s =
     (case rev (dropWhile c_space (rev (dropWhile c_space (map to_ascii s)))) of
        [] \<Rightarrow> None
      | c # cs \<Rightarrow>
          if c = 0x2B then map_option int (py_nat cs)
          else if c = 0x2D then map_option (\<lambda>n. - int n) (py_nat cs)
          else map_option int (py_nat (c # cs)))"

subsection \<open>Status codes\<close>

text \<open>
  \<^verbatim>\<open>http.HTTPStatus\<close> is an integer enumeration of the Python library. The members
  the engine names, and the values for which \<^verbatim>\<open>HTTPStatus(n)\<close> does not raise
  \<^verbatim>\<open>ValueError\<close> (Python 3.9 to 3.12).
\<close>

definition OK :: int where "OK = 200"
definition ACCEPTED :: int where "ACCEPTED = 202"
definition NO_CONTENT :: int where "NO_CONTENT = 204"
definition NOT_FOUND :: int where "NOT_FOUND = 404"
definition CONFLICT :: int where "CONFLICT = 409"
definition NOT_IMPLEMENTED :: int where "NOT_IMPLEMENTED = 501"

definition HTTPStatus_values :: "int list" where
  "HTTPStatus_values =
     [100, 101, 102, 103,
      200, 201, 202, 203, 204, 205, 206, 207, 208, 226,
      300, 301, 302, 303, 304, 305, 307, 308,
      400, 401, 402, 403, 404, 405, 406, 407, 408, 409, 410, 411, 412, 413, 414, 415,
      416, 417, 418, 421, 422, 423, 424, 425, 426, 428, 429, 431, 451,
      500, 501, 502, 503, 504, 505, 506, 507, 508, 510, 511]"

text \<open>\<^verbatim>\<open>HTTPStatus(n)\<close>: \<open>None\<close> stands for the \<^verbatim>\<open>ValueError\<close>.\<close>

definition HTTPStatus :: "int \<Rightarrow> int option" where
  "HTTPStatus n = (if n \<in> set HTTPStatus_values then Some n else None)"

section \<open>Tasks and run_process\<close>

text \<open>
  \<^verbatim>\<open>run_process(p, task, log)\<close> writes to whatever object it is given: a
  \<^verbatim>\<open>ProductRequest\<close> or an \<^verbatim>\<open>_InputInfo\<close>. The record \<open>task\<close> holds the attributes
  the two share. An attribute that an object may lack is an option: \<^verbatim>\<open>_InputInfo\<close>
  declares no \<^verbatim>\<open>status\<close>, and neither class declares \<^verbatim>\<open>error_info\<close>.
\<close>

record task =
  returncode :: int
  status :: "int option"
  error_info :: "ustring option"
  stdout :: pyval
  stderr :: pyval
  inputs :: env

text \<open>
  A child process after \<^verbatim>\<open>communicate()\<close>: its exit code, and the bytes read from
  each stream that was a pipe (\<open>None\<close> for a stream that was not).
\<close>

record popen =
  p_returncode :: int
  p_stdout :: "string option"
  p_stderr :: "string option"

text \<open>
  Lines 421, 422 and 433, 434: a stream that holds something is decoded, \<^verbatim>\<open>None\<close>
  and the empty \<^verbatim>\<open>bytes\<close> object stay what they are. \<open>None\<close> here stands for the
  \<^verbatim>\<open>UnicodeDecodeError\<close>.
\<close>

definition decoded :: "string option \<Rightarrow> pyval option" where
  "decoded b =
     (case b of
        None \<Rightarrow> Some PyNone
      | Some s \<Rightarrow> if s = [] then Some (PyBytes []) else map_option PyStr (decode_utf8 s))"

text \<open>Lines 424 and 425: the last line of the stripped output.\<close>

definition last_line :: "ustring \<Rightarrow> ustring" where
  "last_line s = last (split_on 0x0A (strip s))"

text \<open>Lines 428 and 429, the body of the \<^verbatim>\<open>try\<close>: \<open>None\<close> is the \<^verbatim>\<open>ValueError\<close>.\<close>

definition parse_status :: "ustring \<Rightarrow> int option" where
  "parse_status info =
     (case py_int (hd (split_on 0x20 info)) of
        None \<Rightarrow> None
      | Some n \<Rightarrow> HTTPStatus n)"

text \<open>
  Lines 411 to 436. The decoding of line 422 stands before the \<^verbatim>\<open>try\<close> of line
  427, so its \<^verbatim>\<open>UnicodeDecodeError\<close> leaves the method, as that of line 434 does.
  The handler of the \<^verbatim>\<open>ValueError\<close> formats \<^verbatim>\<open>task.status\<close> into its log line before
  it assigns the default, which raises \<^verbatim>\<open>AttributeError\<close> on an object without
  that attribute.
\<close>

definition run_process :: "popen option \<Rightarrow> 'a task_scheme \<Rightarrow> error + 'a task_scheme" where
  "run_process p task =
     (case p of
        None \<Rightarrow> Inr (task\<lparr>returncode := - 1, status := Some NOT_FOUND\<rparr>)
      | Some p \<Rightarrow>
          (let task1 = task\<lparr>returncode := p_returncode p\<rparr> in
           case decoded (p_stdout p) of
             None \<Rightarrow> Inl UnicodeDecodeError
           | Some stdout_value \<Rightarrow>
               (case (case stdout_value of
                        PyStr s \<Rightarrow>
                          if p_returncode p \<noteq> 0 then
                            (let task2 = task1\<lparr>error_info := Some (last_line s)\<rparr> in
                             case parse_status (last_line s) of
                               Some n \<Rightarrow> Inr (task2\<lparr>status := Some n\<rparr>)
                             | None \<Rightarrow>
                                 (case status task2 of
                                    None \<Rightarrow> Inl AttributeError
                                  | Some old \<Rightarrow> Inr (task2\<lparr>status := Some CONFLICT\<rparr>)))
                          else Inr task1
                      | PyBytes b \<Rightarrow> Inr task1
                      | PyNone \<Rightarrow> Inr task1) of
                  Inl e \<Rightarrow> Inl e
                | Inr t \<Rightarrow>
                    (case decoded (p_stderr p) of
                       None \<Rightarrow> Inl UnicodeDecodeError
                     | Some stderr_value \<Rightarrow>
                         Inr (t\<lparr>stdout := stdout_value, stderr := stderr_value\<rparr>)))))"

section \<open>Paths, files and child processes\<close>

text \<open>
  The cache is a map from paths to the contents of the regular files there.
  Directories are implicit: \<^verbatim>\<open>ensure_output_dir\<close> (line 400, \<^verbatim>\<open>os.makedirs\<close> with
  \<^verbatim>\<open>exist_ok\<close>) changes nothing that the map records, and the engine is taken to
  have the permissions it needs, so that a file operation fails only for the
  reason the map shows: a file that is not there.
\<close>

type_synonym filesys = "path \<Rightarrow> string option"

definition exists_file :: "filesys \<Rightarrow> path \<Rightarrow> bool" where
  "exists_file f p = (f p \<noteq> None)"

text \<open>\<^verbatim>\<open>Path.touch()\<close>: an empty file when there is none, no change otherwise.\<close>

definition touch :: "filesys \<Rightarrow> path \<Rightarrow> filesys" where
  "touch f p = (case f p of None \<Rightarrow> f(p \<mapsto> []) | Some c \<Rightarrow> f)"

text \<open>\<^verbatim>\<open>Path.replace(target)\<close> on a source that exists, holding \<open>c\<close>.\<close>

definition replace_file :: "filesys \<Rightarrow> path \<Rightarrow> string \<Rightarrow> path \<Rightarrow> filesys" where
  "replace_file f src c dst = (if src = dst then f else (f(src := None))(dst \<mapsto> c))"

definition str_path :: "path \<Rightarrow> string" where
  "str_path p = (if p = [] then ''/'' else concat (map (\<lambda>c. CHR ''/'' # c) p))"

definition parent :: "path \<Rightarrow> path" where
  "parent p = butlast p"

definition name :: "path \<Rightarrow> string" where
  "name p = (if p = [] then [] else last p)"

text \<open>
  The components a string adds to a \<^verbatim>\<open>Path\<close>: pathlib drops empty components and
  single dots.
\<close>

definition parts :: "string \<Rightarrow> string list" where
  "parts s = filter (\<lambda>c. c \<noteq> [] \<and> c \<noteq> ''.'') (split_on CHR ''/'' s)"

text \<open>
  \<^verbatim>\<open>Path(base, *segments)\<close> on an absolute base: a segment that starts with a slash
  discards what stands before it.
\<close>

definition Path_join :: "path \<Rightarrow> string list \<Rightarrow> path" where
  "Path_join base segs =
     fold (\<lambda>s acc. if s \<noteq> [] \<and> hd s = CHR ''/'' then parts s else acc @ parts s) segs base"

text \<open>
  The world the engine runs in: the files, the child processes started so far (the
  script and the environment each was given, oldest first), and the class
  attribute \<^verbatim>\<open>ProductServer.counter\<close> (line 135, initially 0).
\<close>

record world =
  fs :: filesys
  procs :: "(path \<times> env) list"
  counter :: int

text \<open>
  What a child process did by the time it exits: its exit code, what it wrote to
  its standard output and to its standard error, and the files it left.
\<close>

record finished =
  exit_code :: int
  out :: string
  err :: string
  files :: filesys

text \<open>
  \<^verbatim>\<open>nutproduct.ProductInfo\<close> is not part of the source at hand. The record holds what
  the engine reads from one: the attributes \<^verbatim>\<open>ID\<close> and \<^verbatim>\<open>TIMESTAMP\<close> and the values of
  \<^verbatim>\<open>filename()\<close>, \<^verbatim>\<open>filename_latest()\<close> and \<^verbatim>\<open>get_param_env()\<close>.
\<close>

record product_info =
  ID :: string
  TIMESTAMP :: string
  filename :: string
  filename_latest :: string
  param_env :: env

text \<open>
  A \<^verbatim>\<open>ProductServer\<close>: its configured roots (absolute), the working directory of
  the Python process, whether \<^verbatim>\<open>self.stderr\<close> is \<^verbatim>\<open>subprocess.PIPE\<close> (it is unless the
  module runs as a script, line 349), and the collaborators that are not part of
  the source at hand, taken as parameters:
  \<^item> \<open>shell script environment merged w\<close>: what the script does when started by
    \<^verbatim>\<open>subprocess.Popen\<close> through the shell in its own directory, \<open>merged\<close> telling
    whether its standard error goes to its standard output. A child that never
    exits is outside the model.
  \<^item> \<open>ProductInfo\<close>: the constructor of \<^verbatim>\<open>nutproduct.ProductInfo\<close> on a string;
  \<^item> \<open>parse_timestamp\<close>: \<^verbatim>\<open>nutproduct.parse_timestamp\<close>, giving the values of
    \<^verbatim>\<open>YEAR\<close>, \<^verbatim>\<open>MONTH\<close> and \<^verbatim>\<open>DAY\<close>;
  \<^item> \<open>read_conf_text\<close>: the assignments \<^verbatim>\<open>nutils.read_conf_text\<close> makes to the
    dictionary it is given, in order, for the lines it is given;
  \<^item> \<open>encode\<close>: the bytes \<^verbatim>\<open>Path.write_text\<close> writes for a \<^verbatim>\<open>str\<close>, in the encoding
    of the locale, \<open>None\<close> where that raises \<^verbatim>\<open>UnicodeEncodeError\<close>;
  \<^item> \<open>symlink link target overwrite\<close>: \<^verbatim>\<open>nutils.symlink\<close>, giving whether it
    raised and the files it left.
\<close>

record server =
  PRODUCT_ROOT :: path
  CACHE_ROOT :: path
  cwd :: path
  stderr_pipe :: bool
  shell :: "path \<Rightarrow> env \<Rightarrow> bool \<Rightarrow> world \<Rightarrow> finished"
  ProductInfo :: "string \<Rightarrow> product_info"
  parse_timestamp :: "string \<Rightarrow> string \<times> string \<times> string"
  read_conf_text :: "ustring list \<Rightarrow> (string \<times> string) list"
  encode :: "ustring \<Rightarrow> string option"
  symlink :: "path \<Rightarrow> path \<Rightarrow> bool \<Rightarrow> filesys \<Rightarrow> bool \<times> filesys"

text \<open>What a method leaves: an exception that nothing caught, or its value.\<close>

datatype 'a result = Raise error world | Ok 'a world

text \<open>
  \<^verbatim>\<open>subprocess.Popen(str(script), cwd=..., shell=True, env=...)\<close> followed by
  \<^verbatim>\<open>communicate()\<close>, both standard output pipes read to the end.
\<close>

definition Popen :: "server \<Rightarrow> path \<Rightarrow> env \<Rightarrow> bool \<Rightarrow> world \<Rightarrow> finished \<times> world" where
  "Popen srv scr e merged w =
     (let r = shell srv scr e merged w
      in (r, w\<lparr>fs := files r, procs := procs w @ [(scr, e)]\<rparr>))"

section \<open>ProductRequest\<close>

record request = task +
  sid :: int
  product_info :: product_info
  actions :: "string list"
  directives :: "string list"
  generator_path :: path
  path :: pathval
  path_tmp :: path
  path_static :: path
  path_latest :: path
  product :: pathval

record input_info = task +
  script :: path

text \<open>Line 373.\<close>

definition get_product_dir :: "product_info \<Rightarrow> string" where
  "get_product_dir info = map (\<lambda>c. if c = CHR ''.'' then CHR ''/'' else c) (ID info)"

text \<open>Line 377, with \<^verbatim>\<open>TIME_DIR_SYNTAX\<close> as line 118 sets it.\<close>

definition get_time_dir :: "server \<Rightarrow> product_info \<Rightarrow> string" where
  "get_time_dir srv info =
     (if TIMESTAMP info \<noteq> [] then
        (if TIMESTAMP info = ''LATEST'' then []
         else (case parse_timestamp srv (TIMESTAMP info) of
                 (year, month, day) \<Rightarrow> year @ ''/'' @ month @ ''/'' @ day))
      else [])"

text \<open>Line 392.\<close>

definition get_generator_dir :: "server \<Rightarrow> product_info \<Rightarrow> path" where
  "get_generator_dir srv info = Path_join (PRODUCT_ROOT srv) (split_on CHR ''.'' (ID info))"

text \<open>The unary plus of Python integers.\<close>

definition uplus :: "int \<Rightarrow> int" where
  "uplus n = n"

text \<open>
  Lines 239 to 294, the constructor. Line 241 reads
  \<^verbatim>\<open>self.sid = (++ProductServer.counter)\<close>: two unary plus signs applied to the class
  attribute, and no assignment to it. The constructor returns the world with the
  request, as every statement that could change the counter does.
\<close>

definition ProductRequest ::
  "server \<Rightarrow> product_info \<Rightarrow> string list \<Rightarrow> string list \<Rightarrow> world \<Rightarrow> request \<times> world" where
  "ProductRequest srv info acts dirs w =
     (let time_dir = get_time_dir srv info;
          prod_dir = get_product_dir info
      in (\<lparr>returncode = - 1,
           status = Some NO_CONTENT,
           error_info = None,
           stdout = PyNone,
           stderr = PyNone,
           inputs = [],
           sid = uplus (uplus (counter w)),
           product_info = info,
           actions = acts,
           directives = dirs,
           generator_path = Path_join (get_generator_dir srv info) [''generate.sh''],
           path = APath (Path_join (CACHE_ROOT srv) [time_dir, prod_dir, filename info]),
           path_tmp = Path_join (CACHE_ROOT srv) [time_dir, prod_dir, ''tmp'', filename info],
           path_static = Path_join (CACHE_ROOT srv) [prod_dir, filename info],
           path_latest = Path_join (CACHE_ROOT srv) [prod_dir, filename_latest info],
           product = NoneVal\<rparr>, w))"

text \<open>Line 317.\<close>

definition InputInfo :: "server \<Rightarrow> product_info \<Rightarrow> input_info" where
  "InputInfo srv info =
     \<lparr>returncode = 0, status = None, error_info = None, stdout = PyNone, stderr = PyNone,
      inputs = [], script = Path_join (get_generator_dir srv info) [''input.sh'']\<rparr>"

section \<open>get_input_list and run_generator\<close>

text \<open>
  Lines 439 to 473. The script's standard output is always a pipe; its standard
  error is \<^verbatim>\<open>self.stderr\<close>. An exception of \<^verbatim>\<open>run_process\<close> leaves the method.
  After a clean exit line 465 calls \<^verbatim>\<open>split\<close> with a
  \<^verbatim>\<open>str\<close> argument on \<^verbatim>\<open>input_info.stdout\<close>, which \<^verbatim>\<open>run_process\<close> left as the
  empty \<^verbatim>\<open>bytes\<close> object when the script printed nothing. After a failure line 469
  reads \<^verbatim>\<open>input_info.error_info\<close>, which exists only if \<^verbatim>\<open>run_process\<close> assigned it.
\<close>

definition get_input_list :: "server \<Rightarrow> product_info \<Rightarrow> world \<Rightarrow> input_info result" where
  "get_input_list srv info w =
     (let input_info = InputInfo srv info in
      if \<not> exists_file (fs w) (script input_info) then Ok input_info w
      else
        (case Popen srv (script input_info) (param_env info) False w of
           (r, w1) \<Rightarrow>
             (case run_process
                     (Some \<lparr>p_returncode = exit_code r, p_stdout = Some (out r),
                            p_stderr = (if stderr_pipe srv then Some (err r) else None)\<rparr>)
                     input_info of
                Inl e \<Rightarrow> Raise e w1
              | Inr input_info1 \<Rightarrow>
                  if returncode input_info1 = 0 then
                    (case stdout input_info1 of
                       PyStr s \<Rightarrow>
                         Ok (input_info1\<lparr>inputs :=
                               fold (\<lambda>(k, v) d. AList.update k v d)
                                    (read_conf_text srv (split_on 0x0A s))
                                    (inputs input_info1)\<rparr>) w1
                     | PyBytes b \<Rightarrow> Raise TypeError w1
                     | PyNone \<Rightarrow> Raise AttributeError w1)
                  else
                    (case error_info input_info1 of
                       None \<Rightarrow> Raise AttributeError w1
                     | Some info_line \<Rightarrow> Ok input_info1 w1))))"

text \<open>
  \<^verbatim>\<open>Path(str(product_request.path) + suffix)\<close>, lines 503, 507 and 639: the suffix
  is appended to the last component. A string that is no absolute path names a
  file in the working directory.
\<close>

definition log_path :: "server \<Rightarrow> pathval \<Rightarrow> string \<Rightarrow> path" where
  "log_path srv v suffix =
     (case v of
        APath p \<Rightarrow> (if p = [] then [suffix] else butlast p @ [last p @ suffix])
      | EmptyStr \<Rightarrow> cwd srv @ [suffix]
      | NoneVal \<Rightarrow> cwd srv @ [''None'' @ suffix])"

text \<open>
  \<^verbatim>\<open>Path.write_text(data)\<close>: refuses anything but a \<^verbatim>\<open>str\<close> before it opens the
  file. It then opens the file for writing, which empties it, and writes the
  encoded text; what cannot be encoded leaves the empty file and raises.
\<close>

definition write_text :: "server \<Rightarrow> path \<Rightarrow> pyval \<Rightarrow> world \<Rightarrow> unit result" where
  "write_text srv p data w =
     (case data of
        PyStr s \<Rightarrow>
          (case encode srv s of
             Some b \<Rightarrow> Ok () (w\<lparr>fs := (fs w)(p \<mapsto> b)\<rparr>)
           | None \<Rightarrow> Raise UnicodeEncodeError (w\<lparr>fs := (fs w)(p \<mapsto> [])\<rparr>))
      | PyBytes b \<Rightarrow> Raise TypeError w
      | PyNone \<Rightarrow> Raise TypeError w)"

text \<open>
  Lines 477 to 511. The generator's standard error goes to its standard output
  (line 496), so \<^verbatim>\<open>communicate\<close> returns \<^verbatim>\<open>None\<close> for it. The value returned is the
  request as the method leaves it; the exit code it returns is \<open>returncode\<close> of that.
\<close>

definition run_generator :: "server \<Rightarrow> request \<Rightarrow> env \<Rightarrow> world \<Rightarrow> request result" where
  "run_generator srv product_request params w =
     (case Popen srv (generator_path product_request) params True w of
        (r, w1) \<Rightarrow>
          (case run_process
                  (Some \<lparr>p_returncode = exit_code r, p_stdout = Some (out r), p_stderr = None\<rparr>)
                  product_request of
             Inl e \<Rightarrow> Raise e w1
           | Inr pr1 \<Rightarrow>
               if exit_code r \<noteq> 0 then
                 (case (if truthy (stdout pr1)
                        then write_text srv (log_path srv (path pr1) ''.stdout.log'') (stdout pr1) w1
                        else Ok () w1) of
                    Raise e w2 \<Rightarrow> Raise e w2
                  | Ok u w2 \<Rightarrow>
                      (case (if truthy (stderr pr1)
                             then write_text srv (log_path srv (path pr1) ''.stderr.log'') (stderr pr1) w2
                             else Ok () w2) of
                         Raise e w3 \<Rightarrow> Raise e w3
                       | Ok u w3 \<Rightarrow> Ok pr1 w3))
               else Ok pr1 w1))"

section \<open>handle_request\<close>

text \<open>
  \<^verbatim>\<open>handle_request\<close> (lines 524 to 646) is one long method. The embedding cuts it
  where the source leaves blank lines and comments, and names the pieces. A piece
  either ends the method (\<open>Done\<close>: a \<^verbatim>\<open>return pr\<close> or an exception) or hands on to
  the next (\<open>Continue\<close>).
\<close>

datatype 'a flow = Done "request result" | Continue 'a world

text \<open>
  Lines 531 to 548. A request to delete is served first and does not return: the
  \<^verbatim>\<open>return pr\<close> of line 546 belongs to the branch for \<^verbatim>\<open>MAKE\<close>.
\<close>

definition lookup_cache :: "request \<Rightarrow> path \<Rightarrow> world \<Rightarrow> request flow" where
  "lookup_cache pr p w =
     (case fs w p of
        Some content \<Rightarrow>
          if ''DELETE'' \<in> set (actions pr) then
            Continue (pr\<lparr>status := Some ACCEPTED\<rparr>) (w\<lparr>fs := (fs w)(p := None)\<rparr>)
          else if ''MAKE'' \<in> set (actions pr) then
            (if length content > 0
             then Done (Ok (pr\<lparr>product := APath p, status := Some OK\<rparr>) w)
             else Done (Ok (pr\<lparr>product := EmptyStr, status := Some ACCEPTED\<rparr>) w))
          else Continue pr w
      | None \<Rightarrow> Continue pr w)"

text \<open>Lines 552 to 559.\<close>

definition check_generator :: "request \<Rightarrow> world \<Rightarrow> request flow" where
  "check_generator pr w =
     (if exists_file (fs w) (generator_path pr) then Continue pr w
      else Done (Ok (pr\<lparr>path := EmptyStr, status := Some NOT_IMPLEMENTED\<rparr>) w))"

text \<open>Lines 563 to 574: the environment of the generator and the placeholder.\<close>

definition prepare :: "request \<Rightarrow> path \<Rightarrow> world \<Rightarrow> env \<times> world" where
  "prepare pr p w =
     (if ''MAKE'' \<in> set (actions pr) then
        (AList.update ''OUTFILE'' (name p)
           (AList.update ''OUTDIR'' (str_path (parent (path_tmp pr)))
              (param_env (product_info pr))),
         w\<lparr>fs := touch (fs w) p\<rparr>)
      else ([], w))"

text \<open>Lines 577 to 586. \<^verbatim>\<open>Path.unlink()\<close> raises when the file is not there.\<close>

definition list_inputs :: "server \<Rightarrow> request \<Rightarrow> path \<Rightarrow> world \<Rightarrow> request flow" where
  "list_inputs srv pr p w =
     (if ''MAKE'' \<in> set (actions pr) \<or> ''INPUTS'' \<in> set (actions pr) then
        (case get_input_list srv (product_info pr) w of
           Raise e w1 \<Rightarrow> Done (Raise e w1)
         | Ok input_info w1 \<Rightarrow>
             if returncode input_info = 0 then Continue (pr\<lparr>inputs := inputs input_info\<rparr>) w1
             else
               (case fs w1 p of
                  None \<Rightarrow> Done (Raise FileNotFoundError w1)
                | Some content \<Rightarrow>
                    Done (Ok (pr\<lparr>status := Some CONFLICT\<rparr>) (w1\<lparr>fs := (fs w1)(p := None)\<rparr>))))
      else Continue pr w)"

text \<open>Lines 531 to 586 together: everything before the inputs are retrieved.\<close>

definition resolve :: "server \<Rightarrow> request \<Rightarrow> path \<Rightarrow> world \<Rightarrow> (request \<times> env) flow" where
  "resolve srv pr p w =
     (case lookup_cache pr p w of
        Done r \<Rightarrow> Done r
      | Continue pr1 w1 \<Rightarrow>
          (case check_generator pr1 w1 of
             Done r \<Rightarrow> Done r
           | Continue pr2 w2 \<Rightarrow>
               (case prepare pr2 p w2 of
                  (params, w3) \<Rightarrow>
                    (case list_inputs srv pr2 p w3 of
                       Done r \<Rightarrow> Done r
                     | Continue pr3 w4 \<Rightarrow> Continue (pr3, params) w4))))"

definition str_pathval :: "pathval \<Rightarrow> string" where
  "str_pathval v = (case v of APath p \<Rightarrow> str_path p | EmptyStr \<Rightarrow> [] | NoneVal \<Rightarrow> ''None'')"

text \<open>
  The loop of lines 591 to 601 over the listed inputs, \<open>mk\<close> standing for
  \<^verbatim>\<open>self.make_request\<close>. An input is kept when the request that comes back has a
  true \<^verbatim>\<open>path\<close>. \<open>None\<close> is a recursion that does not come back.
\<close>

fun make_inputs ::
  "(product_info \<Rightarrow> string list \<Rightarrow> string list \<Rightarrow> world \<Rightarrow> request result option) \<Rightarrow>
   server \<Rightarrow> (string \<times> string) list \<Rightarrow> env \<Rightarrow> world \<Rightarrow> env result option" where
  "make_inputs mk srv [] acc w = Some (Ok acc w)"
| "make_inputs mk srv ((i, input) # rest) acc w =
     (case mk (ProductInfo srv input) [''MAKE''] [] w of
        None \<Rightarrow> None
      | Some (Raise e w1) \<Rightarrow> Some (Raise e w1)
      | Some (Ok r w1) \<Rightarrow>
          make_inputs mk srv rest
            (if path_truthy (path r) then AList.update i (str_pathval (path r)) acc else acc) w1)"

text \<open>\<^verbatim>\<open>d.update(other)\<close>.\<close>

definition dict_update :: "env \<Rightarrow> env \<Rightarrow> env" where
  "dict_update d other = fold (\<lambda>(k, v) d. AList.update k v d) other d"

text \<open>Lines 588 to 606.\<close>

definition retrieve_inputs ::
  "(product_info \<Rightarrow> string list \<Rightarrow> string list \<Rightarrow> world \<Rightarrow> request result option) \<Rightarrow>
   server \<Rightarrow> request \<Rightarrow> env \<Rightarrow> world \<Rightarrow> (request \<times> env) result option" where
  "retrieve_inputs mk srv pr params w =
     (if ''MAKE'' \<in> set (actions pr) then
        (case make_inputs mk srv (inputs pr) [] w of
           None \<Rightarrow> None
         | Some (Raise e w1) \<Rightarrow> Some (Raise e w1)
         | Some (Ok found w1) \<Rightarrow>
             Some (Ok (pr\<lparr>inputs := found\<rparr>,
                       dict_update (AList.update ''INPUTKEYS'' (join '','' (map fst found)) params)
                                   found) w1))
      else Some (Ok (pr, params) w))"

text \<open>
  Lines 625 to 636: both links stand in one \<^verbatim>\<open>try\<close>, so a failure of the first
  skips the second; the bare \<^verbatim>\<open>except\<close> swallows it.
\<close>

definition apply_links :: "server \<Rightarrow> request \<Rightarrow> path \<Rightarrow> filesys \<Rightarrow> filesys" where
  "apply_links srv pr p f =
     (case (if ''LINK'' \<in> set (directives pr) then symlink srv (path_static pr) p False f
            else (False, f)) of
        (raised, f1) \<Rightarrow>
          if raised then f1
          else if ''LATEST'' \<in> set (directives pr) then snd (symlink srv (path_latest pr) p True f1)
          else f1)"

text \<open>Lines 638 to 644.\<close>

definition save_log :: "server \<Rightarrow> request \<Rightarrow> world \<Rightarrow> world" where
  "save_log srv pr w =
     (if ''DEBUG'' \<in> set (directives pr) \<or> ''LOG'' \<in> set (directives pr) then
        (case write_text srv (log_path srv (path pr) ''.log'') (stdout pr) w of
           Raise e w1 \<Rightarrow> w1
         | Ok u w1 \<Rightarrow> w1)
      else w)"

text \<open>
  Lines 609 to 646, under the comment \<^verbatim>\<open>MAIN\<close>. \<^verbatim>\<open>pr.path_tmp.stat()\<close> of line 617
  raises when the generator left no file there.
\<close>

definition generate :: "server \<Rightarrow> request \<Rightarrow> path \<Rightarrow> env \<Rightarrow> world \<Rightarrow> request result" where
  "generate srv pr p params w =
     (if ''MAKE'' \<in> set (actions pr) then
        (case run_generator srv pr params w of
           Raise e w1 \<Rightarrow> Raise e w1
         | Ok pr1 w1 \<Rightarrow>
             if returncode pr1 \<noteq> 0 then Ok pr1 w1
             else
               (case fs w1 (path_tmp pr1) of
                  None \<Rightarrow> Raise FileNotFoundError w1
                | Some content \<Rightarrow>
                    if length content = 0 then Ok pr1 w1
                    else
                      (let w2 = w1\<lparr>fs := replace_file (fs w1) (path_tmp pr1) content p\<rparr>;
                           pr2 = pr1\<lparr>status := Some OK\<rparr>;
                           w3 = w2\<lparr>fs := apply_links srv pr2 p (fs w2)\<rparr>
                       in Ok pr2 (save_log srv pr2 w3))))
      else Ok pr w)"

text \<open>The whole method, the recursive \<^verbatim>\<open>self.make_request\<close> given as \<open>mk\<close>.\<close>

definition handle_request_body ::
  "(product_info \<Rightarrow> string list \<Rightarrow> string list \<Rightarrow> world \<Rightarrow> request result option) \<Rightarrow>
   server \<Rightarrow> request \<Rightarrow> world \<Rightarrow> request result option" where
  "handle_request_body mk srv pr w =
     (case path pr of
        APath p \<Rightarrow>
          (case resolve srv pr p w of
             Done r \<Rightarrow> Some r
           | Continue (pr1, params) w1 \<Rightarrow>
               (case retrieve_inputs mk srv pr1 params w1 of
                  None \<Rightarrow> None
                | Some (Raise e w2) \<Rightarrow> Some (Raise e w2)
                | Some (Ok (pr2, params2) w2) \<Rightarrow> Some (generate srv pr2 p params2 w2)))
      | EmptyStr \<Rightarrow> Some (Raise AttributeError w)
      | NoneVal \<Rightarrow> Some (Raise AttributeError w))"

text \<open>
  The recursion through \<^verbatim>\<open>make_request\<close> (line 596) has no bound in the source: an
  input script may always name a product not seen before. The first argument
  bounds its depth, and \<open>None\<close> says that the bound was too small.
\<close>

primrec handle_request :: "nat \<Rightarrow> server \<Rightarrow> request \<Rightarrow> world \<Rightarrow> request result option" where
  "handle_request 0 srv pr w = None"
| "handle_request (Suc n) srv pr w =
     handle_request_body
       (\<lambda>info acts dirs w'.
          case ProductRequest srv info acts dirs w' of (child, w'') \<Rightarrow> handle_request n srv child w'')
       srv pr w"

text \<open>Lines 514 to 521.\<close>

definition make_request ::
  "nat \<Rightarrow> server \<Rightarrow> product_info \<Rightarrow> string list \<Rightarrow> string list \<Rightarrow> world \<Rightarrow> request result option" where
  "make_request n srv info acts dirs w =
     (case ProductRequest srv info acts dirs w of
        (product_request, w1) \<Rightarrow> handle_request n srv product_request w1)"

section \<open>Observations and scenarios\<close>

text \<open>The world a method leaves, whether it returned or raised.\<close>

fun world_of :: "'a result \<Rightarrow> world" where
  "world_of (Raise e w) = w"
| "world_of (Ok x w) = w"

text \<open>The world a piece of \<^verbatim>\<open>handle_request\<close> leaves.\<close>

definition flow_world :: "'a flow \<Rightarrow> world" where
  "flow_world f = (case f of Done r \<Rightarrow> world_of r | Continue x w \<Rightarrow> w)"

text \<open>Requests constructed one after the other, each in the world the last one left.\<close>

fun construct_all ::
  "server \<Rightarrow> (product_info \<times> string list \<times> string list) list \<Rightarrow> world \<Rightarrow> request list \<times> world" where
  "construct_all srv [] w = ([], w)"
| "construct_all srv ((info, acts, dirs) # rest) w =
     (case ProductRequest srv info acts dirs w of
        (pr, w1) \<Rightarrow> (case construct_all srv rest w1 of (prs, w2) \<Rightarrow> (pr # prs, w2)))"

text \<open>
  The scenario of the specification: the product \<^verbatim>\<open>test.gen\<close> at
  \<^verbatim>\<open>202001010000\<close>, under the product root \<^verbatim>\<open>/prod\<close> and the cache root \<^verbatim>\<open>/cache\<close>.
  The server is given the behaviour of its scripts. Its locale encodes ASCII only,
  and its configuration lines read \<^verbatim>\<open>name=value\<close>.
\<close>

definition demo_info :: product_info where
  "demo_info = \<lparr>ID = ''test.gen'', TIMESTAMP = ''202001010000'',
                 filename = ''202001010000_test.gen.txt'',
                 filename_latest = ''LATEST_test.gen.txt'', param_env = []\<rparr>"

definition demo_server :: "(path \<Rightarrow> env \<Rightarrow> bool \<Rightarrow> world \<Rightarrow> finished) \<Rightarrow> server" where
  "demo_server sh =
     \<lparr>PRODUCT_ROOT = [''prod''], CACHE_ROOT = [''cache''], cwd = [''work''], stderr_pipe = True,
      shell = sh,
      ProductInfo = (\<lambda>s. \<lparr>ID = takeWhile (\<lambda>c. c \<noteq> CHR ''_'') s, TIMESTAMP = [],
                           filename = s, filename_latest = s, param_env = []\<rparr>),
      parse_timestamp = (\<lambda>t. (take 4 t, take 2 (drop 4 t), take 2 (drop 6 t))),
      read_conf_text = (\<lambda>ls. map (\<lambda>l. (map char_of (takeWhile (\<lambda>c. c \<noteq> 0x3D) l),
                                         map char_of (drop 1 (dropWhile (\<lambda>c. c \<noteq> 0x3D) l))))
                                  (filter (\<lambda>l. l \<noteq> []) ls)),
      encode = (\<lambda>s. if list_all (\<lambda>c. c < 0x80) s then Some (map char_of s) else None),
      symlink = (\<lambda>link target overwrite f. (False, f(link := f target)))\<rparr>"

definition demo_world :: "(path \<times> string) list \<Rightarrow> world" where
  "demo_world fl = \<lparr>fs = map_of fl, procs = [], counter = 0\<rparr>"

definition demo_path :: path where
  "demo_path = [''cache'', ''2020'', ''01'', ''01'', ''test'', ''gen'', ''202001010000_test.gen.txt'']"

definition demo_tmp :: path where
  "demo_tmp = [''cache'', ''2020'', ''01'', ''01'', ''test'', ''gen'', ''tmp'',
               ''202001010000_test.gen.txt'']"

definition demo_generator :: path where
  "demo_generator = [''prod'', ''test'', ''gen'', ''generate.sh'']"

definition demo_input_script :: path where
  "demo_input_script = [''prod'', ''test'', ''gen'', ''input.sh'']"

text \<open>A script that prints nothing, changes nothing and exits with 0.\<close>

definition idle :: "path \<Rightarrow> env \<Rightarrow> bool \<Rightarrow> world \<Rightarrow> finished" where
  "idle scr e merged w = \<lparr>exit_code = 0, out = [], err = [], files = fs w\<rparr>"

text \<open>A script that reports a conflict on its last line and exits with 1.\<close>

definition failing :: "path \<Rightarrow> env \<Rightarrow> bool \<Rightarrow> world \<Rightarrow> finished" where
  "failing scr e merged w =
     \<lparr>exit_code = 1, out = ''409 bad input'' @ [CHR 0x0A], err = [], files = fs w\<rparr>"



text \<open>A script that complains on its standard error only and exits with 1.\<close>

definition silent_failure :: "path \<Rightarrow> env \<Rightarrow> bool \<Rightarrow> world \<Rightarrow> finished" where
  "silent_failure scr e merged w =
     \<lparr>exit_code = 1, out = (if merged then ''no data'' else []), err = ''no data'', files = fs w\<rparr>"

text \<open>
  Scripts for a product with two inputs. The input script lists \<^verbatim>\<open>a\<close> and \<^verbatim>\<open>b\<close>;
  the generator of the second input reports a conflict and exits with 1; any other
  generator writes \<^verbatim>\<open>hello\<close> to the temporary file of \<^verbatim>\<open>test.gen\<close>.
\<close>

definition upstream_one :: path where
  "upstream_one = [''cache'', ''upstream'', ''one'', ''upstream.one_x.txt'']"

definition upstream_two :: path where
  "upstream_two = [''cache'', ''upstream'', ''two'', ''upstream.two_y.txt'']"

definition upstream_two_generator :: path where
  "upstream_two_generator = [''prod'', ''upstream'', ''two'', ''generate.sh'']"

definition listing_two :: "path \<Rightarrow> env \<Rightarrow> bool \<Rightarrow> world \<Rightarrow> finished" where
  "listing_two scr e merged w =
     (if name scr = ''input.sh''
      then \<lparr>exit_code = 0,
            out = ''a=upstream.one_x.txt'' @ [CHR 0x0A] @ ''b=upstream.two_y.txt'' @ [CHR 0x0A],
            err = [], files = fs w\<rparr>
      else if scr = upstream_two_generator
      then \<lparr>exit_code = 1, out = ''409 bad input'' @ [CHR 0x0A], err = [], files = fs w\<rparr>
      else \<lparr>exit_code = 0, out = [], err = [], files = (fs w)(demo_tmp \<mapsto> ''hello'')\<rparr>)"

text \<open>
  The cache holds the first input; the second has a generator script and nothing
  cached.
\<close>

definition two_inputs_world :: world where
  "two_inputs_world = demo_world [(demo_generator, ''generate''), (demo_input_script, ''list''),
      (upstream_one, ''data''), (upstream_two_generator, ''exit 1'')]"

definition demo_request :: "string list \<Rightarrow> request" where
  "demo_request acts = fst (ProductRequest (demo_server idle) demo_info acts [] (demo_world []))"


section \<open>Basic facts\<close>

lemma handle_request_Suc:
  "handle_request (Suc n) srv pr w = handle_request_body (make_request n srv) srv pr w"
  by (simp add: make_request_def [abs_def])

lemma demo_request_path: "path (demo_request acts) = APath demo_path"
  by (simp add: demo_request_def ProductRequest_def demo_server_def demo_info_def demo_path_def
      Path_join_def parts_def get_time_dir_def get_product_dir_def Let_def)

lemma demo_request_path_tmp: "path_tmp (demo_request acts) = demo_tmp"
  by (simp add: demo_request_def ProductRequest_def demo_server_def demo_info_def demo_tmp_def
      Path_join_def parts_def get_time_dir_def get_product_dir_def Let_def)

lemma demo_request_generator: "generator_path (demo_request acts) = demo_generator"
  by (simp add: demo_request_def ProductRequest_def demo_server_def demo_info_def
      demo_generator_def Path_join_def parts_def get_generator_dir_def Let_def)

lemma demo_request_fields:
  "actions (demo_request acts) = acts"
  "status (demo_request acts) = Some NO_CONTENT"
  "directives (demo_request acts) = []"
  "product_info (demo_request acts) = demo_info"
  "returncode (demo_request acts) = - 1"
  by (simp_all add: demo_request_def ProductRequest_def Let_def)

text \<open>The definitions a scenario unfolds.\<close>

lemmas engine_defs =
  handle_request_body_def resolve_def lookup_cache_def check_generator_def exists_file_def
  prepare_def list_inputs_def get_input_list_def InputInfo_def retrieve_inputs_def generate_def
  run_generator_def Popen_def run_process_def write_text_def decoded_def touch_def log_path_def
  get_generator_dir_def Path_join_def parts_def dict_update_def parent_def name_def str_path_def
  last_line_def parse_status_def strip_def uspace_def to_ascii_def c_space_def py_int_def
  py_nat_def is_digit_def digit_val_def HTTPStatus_def HTTPStatus_values_def replace_file_def
  apply_links_def save_log_def char_of_def bit_Suc_0_iff

lemmas demo_defs =
  demo_server_def demo_info_def demo_world_def demo_path_def demo_tmp_def demo_generator_def

lemmas status_defs = OK_def ACCEPTED_def NO_CONTENT_def NOT_FOUND_def CONFLICT_def NOT_IMPLEMENTED_def

text \<open>
  The scenario with a generator script and no input script, up to the retrieval of
  the inputs: the placeholder is in place and nothing has run, whatever the scripts
  would do.
\<close>

lemma demo_resolve:
  "\<exists>pr1 params1. resolve (demo_server sh) (demo_request [''MAKE'']) demo_path
       (demo_world [(demo_generator, ''exit 1'')])
     = Continue (pr1, params1) \<lparr>fs = [demo_generator \<mapsto> ''exit 1'', demo_path \<mapsto> []], procs = [], counter = 0\<rparr>
     \<and> inputs pr1 = [] \<and> status pr1 = Some NO_CONTENT"
  by (simp add: engine_defs demo_defs demo_request_fields demo_request_generator
      demo_request_path_tmp Let_def)

text \<open>What the pieces of \<^verbatim>\<open>handle_request\<close> keep of the request they are given.\<close>

lemma run_process_request:
  fixes pr :: request
  assumes "status pr \<noteq> None"
    and "decoded (p_stdout q) = Some vo" and "decoded (p_stderr q) = Some ve"
  shows "\<exists>t. run_process (Some q) pr = Inr t \<and> returncode t = p_returncode q \<and>
           stdout t = vo \<and> stderr t = ve \<and>
           path t = path pr \<and> path_tmp t = path_tmp pr \<and> actions t = actions pr \<and>
           directives t = directives pr \<and> generator_path t = generator_path pr \<and>
           inputs t = inputs pr \<and> status t \<noteq> None"
  using assms
  by (auto simp add: run_process_def Let_def split: option.splits pyval.splits)

lemma decode_utf8_Nil: "decode_utf8 s = Some [] \<longleftrightarrow> s = []"
  by (cases s) (auto split: if_splits list.splits)

lemma run_process_undecodable:
  "decoded (p_stdout q) = None \<Longrightarrow> run_process (Some q) task = Inl UnicodeDecodeError"
  by (simp add: run_process_def Let_def)

lemma decoded_None [simp]: "decoded None = Some PyNone"
  by (simp add: decoded_def)

lemma lookup_cache_Continue:
  assumes "lookup_cache pr p w = Continue pr1 w1"
  shows "actions pr1 = actions pr \<and> path pr1 = path pr \<and> path_tmp pr1 = path_tmp pr \<and>
         generator_path pr1 = generator_path pr \<and> directives pr1 = directives pr \<and>
         product_info pr1 = product_info pr \<and> procs w1 = procs w \<and> counter w1 = counter w \<and>
         (status pr \<noteq> None \<longrightarrow> status pr1 \<noteq> None)"
  using assms
  by (auto simp add: lookup_cache_def split: option.splits if_splits)

lemma check_generator_Continue:
  assumes "check_generator pr w = Continue pr1 w1"
  shows "pr1 = pr \<and> w1 = w \<and> fs w (generator_path pr) \<noteq> None"
  using assms
  by (auto simp add: check_generator_def exists_file_def split: if_splits)

lemma list_inputs_Continue:
  assumes "list_inputs srv pr p w = Continue pr1 w1"
  shows "\<exists>ins. pr1 = pr\<lparr>inputs := ins\<rparr>"
  using assms
  by (auto simp add: list_inputs_def split: if_splits result.splits option.splits
      intro: exI [of _ "inputs pr"])

lemma resolve_Continue:
  assumes "resolve srv pr p w = Continue (pr1, params) w1"
  shows "actions pr1 = actions pr \<and> path pr1 = path pr \<and> path_tmp pr1 = path_tmp pr \<and>
         generator_path pr1 = generator_path pr \<and> directives pr1 = directives pr \<and>
         (status pr \<noteq> None \<longrightarrow> status pr1 \<noteq> None)"
proof -
  from assms obtain pa wa pb wb wc where
    a: "lookup_cache pr p w = Continue pa wa" and
    b: "check_generator pa wa = Continue pb wb" and
    c: "list_inputs srv pb p wc = Continue pr1 w1"
    by (auto simp add: resolve_def split: flow.splits prod.splits)
  from b have "pb = pa" by (simp add: check_generator_Continue)
  moreover from list_inputs_Continue [OF c] obtain ins where "pr1 = pb\<lparr>inputs := ins\<rparr>" ..
  ultimately show ?thesis using lookup_cache_Continue [OF a] by simp
qed

lemma retrieve_inputs_Ok:
  assumes "retrieve_inputs mk srv pr params w = Some (Ok (pr2, params2) w2)"
  shows "\<exists>ins. pr2 = pr\<lparr>inputs := ins\<rparr>"
  using assms
  by (auto simp add: retrieve_inputs_def split: if_splits option.splits result.splits
      intro: exI [of _ "inputs pr"])


lemma handle_request_generate:
  assumes "path pr = APath p"
    and "resolve srv pr p w = Continue (pr1, params1) w1"
    and "retrieve_inputs (make_request n srv) srv pr1 params1 w1 = Some (Ok (pr2, params) w2)"
  shows "handle_request (Suc n) srv pr w = Some (generate srv pr2 p params w2)"
  using assms by (simp add: handle_request_Suc handle_request_body_def del: handle_request.simps)

lemma reach_generate_fields:
  assumes "resolve srv pr p w = Continue (pr1, params1) w1"
    and "retrieve_inputs mk srv pr1 params1 w1 = Some (Ok (pr2, params) w2)"
  shows "actions pr2 = actions pr \<and> path pr2 = path pr \<and> path_tmp pr2 = path_tmp pr \<and>
         generator_path pr2 = generator_path pr \<and> directives pr2 = directives pr \<and>
         (status pr \<noteq> None \<longrightarrow> status pr2 \<noteq> None)"
proof -
  from retrieve_inputs_Ok [OF assms(2)] obtain ins where "pr2 = pr1\<lparr>inputs := ins\<rparr>" ..
  then show ?thesis using resolve_Continue [OF assms(1)] by simp
qed

text \<open>How \<^verbatim>\<open>run_generator\<close> ends, by the exit code of the generator.\<close>

lemma run_generator_failed:
  assumes "status pr \<noteq> None" and "path pr = APath p"
    and "r = shell srv (generator_path pr) params True w"
    and "exit_code r \<noteq> 0"
    and "res = run_generator srv pr params w"
  shows "procs (world_of res) = procs w @ [(generator_path pr, params)]"
    and "q \<noteq> log_path srv (APath p) ''.stdout.log'' \<Longrightarrow> fs (world_of res) q = files r q"
    and "res = Ok pr1 w1 \<Longrightarrow>
           run_process (Some \<lparr>p_returncode = exit_code r, p_stdout = Some (out r),
                               p_stderr = None\<rparr>) pr = Inr pr1 \<and>
           returncode pr1 = exit_code r \<and> stderr pr1 = PyNone"
    and "decoded (Some (out r)) = Some v \<Longrightarrow> (\<And>s. v = PyStr s \<Longrightarrow> encode srv s \<noteq> None) \<Longrightarrow>
           \<exists>pr' w'. res = Ok pr' w' \<and>
             (\<forall>s b. v = PyStr s \<and> encode srv s = Some b \<longrightarrow>
                fs w' (log_path srv (APath p) ''.stdout.log'') = Some b)"
proof -
  let ?q = "\<lparr>p_returncode = exit_code r, p_stdout = Some (out r), p_stderr = None\<rparr>"
  have all: "procs (world_of res) = procs w @ [(generator_path pr, params)] \<and>
    (q \<noteq> log_path srv (APath p) ''.stdout.log'' \<longrightarrow> fs (world_of res) q = files r q) \<and>
    (res = Ok pr1 w1 \<longrightarrow> run_process (Some ?q) pr = Inr pr1 \<and>
           returncode pr1 = exit_code r \<and> stderr pr1 = PyNone) \<and>
    (decoded (Some (out r)) = Some v \<and> (\<forall>s. v = PyStr s \<longrightarrow> encode srv s \<noteq> None) \<longrightarrow>
           (\<exists>pr' w'. res = Ok pr' w' \<and>
             (\<forall>s b. v = PyStr s \<and> encode srv s = Some b \<longrightarrow>
                fs w' (log_path srv (APath p) ''.stdout.log'') = Some b)))"
  proof (cases "decoded (Some (out r))")
    case None
    from None have "run_process (Some ?q) pr = Inl UnicodeDecodeError"
      by (simp add: run_process_undecodable)
    with assms(3,5) None show ?thesis
      by (simp add: run_generator_def Popen_def Let_def)
  next
    case (Some v0)
    from run_process_request [OF assms(1), of ?q v0 PyNone] Some obtain t where
      t: "run_process (Some ?q) pr = Inr t" "stdout t = v0" "stderr t = PyNone" "path t = path pr"
         "returncode t = exit_code r"
      by auto
    have nonempty: "s \<noteq> []" if "v0 = PyStr s" for s
      using Some that by (auto simp add: decoded_def decode_utf8_Nil split: if_splits)
    show ?thesis
      using assms(2-5) t Some nonempty
      by (cases v0) (auto simp add: run_generator_def Popen_def Let_def write_text_def decoded_def
          split: option.splits if_splits)
  qed
  from all show "procs (world_of res) = procs w @ [(generator_path pr, params)]" by blast
  from all show "q \<noteq> log_path srv (APath p) ''.stdout.log'' \<Longrightarrow> fs (world_of res) q = files r q"
    by blast
  from all show "res = Ok pr1 w1 \<Longrightarrow>
           run_process (Some ?q) pr = Inr pr1 \<and> returncode pr1 = exit_code r \<and> stderr pr1 = PyNone"
    by blast
  from all show "decoded (Some (out r)) = Some v \<Longrightarrow> (\<And>s. v = PyStr s \<Longrightarrow> encode srv s \<noteq> None) \<Longrightarrow>
           \<exists>pr' w'. res = Ok pr' w' \<and>
             (\<forall>s b. v = PyStr s \<and> encode srv s = Some b \<longrightarrow>
                fs w' (log_path srv (APath p) ''.stdout.log'') = Some b)"
    by blast
qed

lemma run_generator_clean:
  assumes "status pr \<noteq> None"
    and "r = shell srv (generator_path pr) params True w"
    and "exit_code r = 0"
    and "res = run_generator srv pr params w"
  shows "procs (world_of res) = procs w @ [(generator_path pr, params)]"
    and "fs (world_of res) = files r"
    and "res = Ok pr1 w1 \<Longrightarrow>
           run_process (Some \<lparr>p_returncode = exit_code r, p_stdout = Some (out r),
                               p_stderr = None\<rparr>) pr = Inr pr1 \<and>
           returncode pr1 = 0 \<and> path_tmp pr1 = path_tmp pr"
    and "decoded (Some (out r)) = Some v \<Longrightarrow> \<exists>pr' w'. res = Ok pr' w'"
proof -
  let ?q = "\<lparr>p_returncode = exit_code r, p_stdout = Some (out r), p_stderr = None\<rparr>"
  have all: "procs (world_of res) = procs w @ [(generator_path pr, params)] \<and>
    fs (world_of res) = files r \<and>
    (res = Ok pr1 w1 \<longrightarrow> run_process (Some ?q) pr = Inr pr1 \<and>
           returncode pr1 = 0 \<and> path_tmp pr1 = path_tmp pr) \<and>
    (decoded (Some (out r)) = Some v \<longrightarrow> (\<exists>pr' w'. res = Ok pr' w'))"
  proof (cases "decoded (Some (out r))")
    case None
    from None have "run_process (Some ?q) pr = Inl UnicodeDecodeError"
      by (simp add: run_process_undecodable)
    with assms(2,4) None show ?thesis
      by (simp add: run_generator_def Popen_def Let_def)
  next
    case (Some v0)
    from run_process_request [OF assms(1), of ?q v0 PyNone] Some obtain t where
      t: "run_process (Some ?q) pr = Inr t" "returncode t = exit_code r"
         "path_tmp t = path_tmp pr"
      by auto
    show ?thesis
      using assms(2-4) t Some
      by (auto simp add: run_generator_def Popen_def Let_def)
  qed
  from all show "procs (world_of res) = procs w @ [(generator_path pr, params)]" by blast
  from all show "fs (world_of res) = files r" by blast
  from all show "res = Ok pr1 w1 \<Longrightarrow>
           run_process (Some ?q) pr = Inr pr1 \<and> returncode pr1 = 0 \<and> path_tmp pr1 = path_tmp pr"
    by blast
  from all show "decoded (Some (out r)) = Some v \<Longrightarrow> \<exists>pr' w'. res = Ok pr' w'" by blast
qed

text \<open>
  After a generator that failed, or that left an empty temporary file, the lines
  under \<^verbatim>\<open>MAIN\<close> add nothing to what \<^verbatim>\<open>run_generator\<close> did.
\<close>

lemma generate_failed:
  assumes "''MAKE'' \<in> set (actions pr)" and "status pr \<noteq> None" and "path pr = APath p"
    and "r = shell srv (generator_path pr) params True w"
    and "exit_code r \<noteq> 0 \<or> files r (path_tmp pr) = Some []"
  shows "generate srv pr p params w = run_generator srv pr params w"
proof (cases "run_generator srv pr params w")
  case (Raise e w1)
  with assms(1) show ?thesis by (simp add: generate_def)
next
  case (Ok pr1 w1)
  show ?thesis
  proof (cases "exit_code r = 0")
    case False
    from run_generator_failed(3) [OF assms(2,3,4) False refl Ok] have "returncode pr1 \<noteq> 0"
      using False by simp
    with Ok assms(1) show ?thesis by (simp add: generate_def)
  next
    case True
    from run_generator_clean(2,3) [OF assms(2,4) True refl] Ok
    have "fs w1 = files r" and "returncode pr1 = 0" and "path_tmp pr1 = path_tmp pr"
      by auto
    with Ok assms(1,5) True show ?thesis by (simp add: generate_def)
  qed
qed

lemma log_path_inj: "log_path srv (APath p) s1 = log_path srv (APath p) s2 \<longleftrightarrow> s1 = s2"
  by (simp add: log_path_def)

text \<open>No piece of the engine assigns to the counter.\<close>

lemma get_input_list_counter: "counter (world_of (get_input_list srv info w)) = counter w"
  by (auto simp add: get_input_list_def Popen_def Let_def
      split: sum.splits pyval.splits option.splits prod.splits)

lemma lookup_cache_counter: "counter (flow_world (lookup_cache pr p w)) = counter w"
  by (simp add: lookup_cache_def flow_world_def split: option.splits)

lemma check_generator_counter: "counter (flow_world (check_generator pr w)) = counter w"
  by (simp add: check_generator_def flow_world_def)

lemma prepare_counter: "counter (snd (prepare pr p w)) = counter w"
  by (simp add: prepare_def)

lemma list_inputs_counter: "counter (flow_world (list_inputs srv pr p w)) = counter w"
proof (cases "get_input_list srv (product_info pr) w")
  case (Raise e w1)
  with get_input_list_counter [of srv "product_info pr" w] show ?thesis
    by (simp add: list_inputs_def flow_world_def)
next
  case (Ok i w1)
  with get_input_list_counter [of srv "product_info pr" w] show ?thesis
    by (simp add: list_inputs_def flow_world_def split: option.splits)
qed

lemma resolve_counter: "counter (flow_world (resolve srv pr p w)) = counter w"
proof (cases "lookup_cache pr p w")
  case (Done r)
  with lookup_cache_counter [of pr p w] show ?thesis by (simp add: resolve_def flow_world_def)
next
  case a: (Continue pa wa)
  with lookup_cache_counter [of pr p w] have ca: "counter wa = counter w"
    by (simp add: flow_world_def)
  show ?thesis
  proof (cases "check_generator pa wa")
    case (Done r)
    with check_generator_counter [of pa wa] a ca show ?thesis
      by (simp add: resolve_def flow_world_def)
  next
    case b: (Continue pb wb)
    with check_generator_counter [of pa wa] ca have cb: "counter wb = counter w"
      by (simp add: flow_world_def)
    obtain params wc where c: "prepare pb p wb = (params, wc)" by (cases "prepare pb p wb")
    with prepare_counter [of pb p wb] cb have cc: "counter wc = counter w" by simp
    show ?thesis
      using a b c cc list_inputs_counter [of srv pb p wc]
      by (cases "list_inputs srv pb p wc") (simp_all add: resolve_def flow_world_def)
  qed
qed

lemma make_inputs_counter:
  assumes mk: "\<forall>info acts dirs w res. mk info acts dirs w = Some res \<longrightarrow> counter (world_of res) = counter w"
  shows "make_inputs mk srv xs acc w = Some res \<Longrightarrow> counter (world_of res) = counter w"
proof (induction xs arbitrary: acc w)
  case Nil
  then show ?case by auto
next
  case (Cons x xs)
  obtain i input where x: "x = (i, input)" by (cases x)
  show ?case
  proof (cases "mk (ProductInfo srv input) [''MAKE''] [] w")
    case None
    with Cons.prems x show ?thesis by simp
  next
    case (Some child)
    from mk Some have c: "counter (world_of child) = counter w" by blast
    show ?thesis
    proof (cases child)
      case (Raise e w1)
      with Cons.prems x Some c show ?thesis by auto
    next
      case (Ok r w1)
      with Cons.prems x Some have
        "make_inputs mk srv xs
           (if path_truthy (path r) then AList.update i (str_pathval (path r)) acc else acc) w1
         = Some res" by simp
      from Cons.IH [OF this] c Ok show ?thesis by simp
    qed
  qed
qed

lemma run_generator_counter: "counter (world_of (run_generator srv pr params w)) = counter w"
  by (auto simp add: run_generator_def Popen_def Let_def write_text_def
      split: sum.splits pyval.splits prod.splits option.splits)

lemma save_log_counter: "counter (save_log srv pr w) = counter w"
  by (simp add: save_log_def write_text_def split: pyval.splits option.splits)

lemma generate_counter: "counter (world_of (generate srv pr p params w)) = counter w"
proof (cases "run_generator srv pr params w")
  case (Raise e w1)
  with run_generator_counter [of srv pr params w] show ?thesis by (simp add: generate_def)
next
  case (Ok pr1 w1)
  with run_generator_counter [of srv pr params w] show ?thesis
    by (simp add: generate_def Let_def save_log_counter split: option.splits)
qed

lemma handle_request_body_counter:
  assumes mk: "\<forall>info acts dirs w res. mk info acts dirs w = Some res \<longrightarrow> counter (world_of res) = counter w"
    and h: "handle_request_body mk srv pr w = Some res"
  shows "counter (world_of res) = counter w"
proof (cases "path pr")
  case (APath p)
  show ?thesis
  proof (cases "resolve srv pr p w")
    case (Done r)
    with h APath resolve_counter [of srv pr p w] show ?thesis
      by (simp add: handle_request_body_def flow_world_def)
  next
    case (Continue x w1)
    obtain pr1 params where x: "x = (pr1, params)" by (cases x)
    from Continue resolve_counter [of srv pr p w] have c1: "counter w1 = counter w"
      by (simp add: flow_world_def)
    show ?thesis
    proof (cases "retrieve_inputs mk srv pr1 params w1")
      case None
      with h APath Continue x show ?thesis by (simp add: handle_request_body_def)
    next
      case (Some t)
      have mi: "\<And>res. make_inputs mk srv (inputs pr1) [] w1 = Some res
                  \<Longrightarrow> counter (world_of res) = counter w1"
        by (rule make_inputs_counter [OF mk])
      have ct: "counter (world_of t) = counter w1"
      proof (cases "''MAKE'' \<in> set (actions pr1)")
        case False
        with Some show ?thesis by (auto simp add: retrieve_inputs_def)
      next
        case True
        show ?thesis
        proof (cases "make_inputs mk srv (inputs pr1) [] w1")
          case None
          with Some True show ?thesis by (simp add: retrieve_inputs_def)
        next
          case found: (Some m)
          from mi [OF found] Some True found show ?thesis
            by (cases m) (auto simp add: retrieve_inputs_def)
        qed
      qed
      show ?thesis
      proof (cases t)
        case (Raise e w2)
        with h APath Continue x Some ct c1 show ?thesis by (auto simp add: handle_request_body_def)
      next
        case (Ok y w2)
        obtain pr2 params2 where y: "y = (pr2, params2)" by (cases y)
        with h APath Continue x Some Ok ct c1 generate_counter [of srv pr2 p params2 w2]
        show ?thesis by (auto simp add: handle_request_body_def)
      qed
    qed
  qed
next
  case NoneVal
  with h show ?thesis by (auto simp add: handle_request_body_def)
next
  case EmptyStr
  with h show ?thesis by (auto simp add: handle_request_body_def)
qed

lemma handle_request_counter:
  "handle_request n srv pr w = Some res \<Longrightarrow> counter (world_of res) = counter w"
proof (induction n arbitrary: pr w res)
  case 0
  then show ?case by simp
next
  case (Suc n)
  have mk: "\<forall>info acts dirs w res. make_request n srv info acts dirs w = Some res
              \<longrightarrow> counter (world_of res) = counter w"
    using Suc.IH by (auto simp add: make_request_def ProductRequest_def Let_def)
  from Suc.prems have "handle_request_body (make_request n srv) srv pr w = Some res"
    by (simp only: handle_request_Suc)
  from handle_request_body_counter [OF mk this] show ?case .
qed

lemma construct_all_counter:
  "construct_all srv xs w = (prs, w') \<Longrightarrow> w' = w \<and> (\<forall>pr\<in>set prs. sid pr = counter w)"
proof (induction xs arbitrary: prs w')
  case Nil
  then show ?case by simp
next
  case (Cons x xs)
  obtain info acts dirs where x: "x = (info, acts, dirs)" by (cases x)
  obtain prs0 w0 where r: "construct_all srv xs w = (prs0, w0)" by (cases "construct_all srv xs w")
  from Cons.IH [OF r] Cons.prems x r show ?case
    by (auto simp add: ProductRequest_def Let_def uplus_def)
qed

section \<open>The cache\<close>

text \<open>
  C1. A request to \<^verbatim>\<open>MAKE\<close> (and not to \<^verbatim>\<open>DELETE\<close>, which line 533 serves first) whose
  path holds a file that is not empty returns at once: the product is the path, the
  status is \<^verbatim>\<open>OK\<close>, and the world that comes back is the world that went in, so no
  file changed and no process was started. Handling the same request again, in the
  world the first call left, or handling the request that came back, gives the same
  request and the same world. Any bound on the recursion but 0 will do.
\<close>

theorem cache_hit_idempotent:
  assumes "''MAKE'' \<in> set (actions pr)" and "''DELETE'' \<notin> set (actions pr)"
    and "path pr = APath p" and "fs w p = Some content" and "content \<noteq> []"
  shows "\<exists>pr' w'. handle_request (Suc n) srv pr w = Some (Ok pr' w') \<and>
           product pr' = APath p \<and> path pr' = APath p \<and> status pr' = Some OK \<and>
           w' = w \<and> procs w' = procs w \<and>
           handle_request (Suc m) srv pr w' = Some (Ok pr' w') \<and>
           handle_request (Suc m) srv pr' w' = Some (Ok pr' w')"
  using assms
  by (simp add: handle_request_Suc handle_request_body_def resolve_def lookup_cache_def)

theorem cache_hit_idempotent_witness:
  "\<exists>pr' w'. handle_request (Suc 0) (demo_server idle) (demo_request [''MAKE''])
               (demo_world [(demo_path, ''hello'')]) = Some (Ok pr' w') \<and>
     product pr' = APath demo_path \<and> status pr' = Some OK \<and> procs w' = [] \<and>
     handle_request (Suc 0) (demo_server idle) pr' w' = Some (Ok pr' w')"
  using cache_hit_idempotent [of "demo_request [''MAKE'']" demo_path
      "demo_world [(demo_path, ''hello'')]" "''hello''" 0 "demo_server idle" 0]
  by (auto simp add: demo_request_path demo_request_fields demo_world_def)

text \<open>
  C2. A request to \<^verbatim>\<open>MAKE\<close> (and not to \<^verbatim>\<open>DELETE\<close>) whose path holds an empty file, the
  placeholder of a generation under way, returns with the empty string as its
  product and the status \<^verbatim>\<open>ACCEPTED\<close>; the world is unchanged, so the placeholder
  is still there and still empty.
\<close>

theorem busy_leaves_placeholder:
  assumes "''MAKE'' \<in> set (actions pr)" and "''DELETE'' \<notin> set (actions pr)"
    and "path pr = APath p" and "fs w p = Some []"
  shows "\<exists>pr' w'. handle_request (Suc n) srv pr w = Some (Ok pr' w') \<and>
           product pr' = EmptyStr \<and> status pr' = Some ACCEPTED \<and>
           w' = w \<and> fs w' p = Some []"
  using assms
  by (simp add: handle_request_Suc handle_request_body_def resolve_def lookup_cache_def)

theorem busy_leaves_placeholder_witness:
  "\<exists>pr' w'. handle_request (Suc 0) (demo_server idle) (demo_request [''MAKE''])
               (demo_world [(demo_path, [])]) = Some (Ok pr' w') \<and>
     product pr' = EmptyStr \<and> status pr' = Some 202 \<and> fs w' demo_path = Some []"
  using busy_leaves_placeholder [of "demo_request [''MAKE'']" demo_path
      "demo_world [(demo_path, [])]" 0 "demo_server idle"]
  by (auto simp add: demo_request_path demo_request_fields demo_world_def ACCEPTED_def)




section \<open>The status of a failed process\<close>




section \<open>Failures of the generator\<close>




text \<open>
  C8, as the source has it. When the generator of a request to \<^verbatim>\<open>MAKE\<close> exits with a
  code other than 0 and has printed something that is UTF-8 and that the locale
  can encode, all it printed (its standard error included, which line 496 sends
  to its standard output) is written as text to the file named after the final
  path with the suffix \<^verbatim>\<open>.stdout.log\<close>. The engine writes no file with the suffix
  \<^verbatim>\<open>.stderr.log\<close>: the request's \<^verbatim>\<open>stderr\<close> is \<^verbatim>\<open>None\<close>, and the file of that name is
  whatever the generator itself left.
\<close>

theorem failure_output_logged:
  assumes "path pr = APath p" and "''MAKE'' \<in> set (actions pr)" and "status pr \<noteq> None"
    and "resolve srv pr p w = Continue (pr1, params1) w1"
    and "retrieve_inputs (make_request n srv) srv pr1 params1 w1 = Some (Ok (pr2, params) w2)"
    and "r = shell srv (generator_path pr) params True w2"
    and "exit_code r \<noteq> 0" and "out r \<noteq> []"
    and "decode_utf8 (out r) = Some s" and "encode srv s = Some b"
  shows "\<exists>pr' w'. handle_request (Suc n) srv pr w = Some (Ok pr' w') \<and>
           fs w' (log_path srv (APath p) ''.stdout.log'') = Some b \<and>
           fs w' (log_path srv (APath p) ''.stderr.log'')
             = files r (log_path srv (APath p) ''.stderr.log'') \<and>
           stderr pr' = PyNone"
proof -
  note f = reach_generate_fields [OF assms(4,5)]
  have s2: "status pr2 \<noteq> None" and p2: "path pr2 = APath p"
    and m2: "''MAKE'' \<in> set (actions pr2)" and g2: "r = shell srv (generator_path pr2) params True w2"
    using f assms(1,2,3,6) by simp_all
  define res where "res = run_generator srv pr2 params w2"
  have h: "handle_request (Suc n) srv pr w = Some res"
    using handle_request_generate [OF assms(1,4,5)]
      generate_failed [OF m2 s2 p2 g2 disjI1 [OF assms(7)]]
    by (simp add: res_def)
  note g = run_generator_failed [OF s2 p2 g2 assms(7) res_def]
  have v: "decoded (Some (out r)) = Some (PyStr s)"
    using assms(8,9) by (simp add: decoded_def)
  from g(4) [OF v] assms(10) obtain pr' w' where
    o: "res = Ok pr' w'" and l: "fs w' (log_path srv (APath p) ''.stdout.log'') = Some b"
    by auto
  from g(3) [OF o] have e: "stderr pr' = PyNone" by simp
  from g(2) [of "log_path srv (APath p) ''.stderr.log''"] o
  have "fs w' (log_path srv (APath p) ''.stderr.log'') = files r (log_path srv (APath p) ''.stderr.log'')"
    by (simp add: log_path_inj)
  with h o l e show ?thesis by simp
qed

theorem failure_output_logged_witness:
  "\<exists>pr' w'. handle_request (Suc 0) (demo_server failing) (demo_request [''MAKE''])
               (demo_world [(demo_generator, ''exit 1'')]) = Some (Ok pr' w') \<and>
     fs w' (log_path (demo_server failing) (APath demo_path) ''.stdout.log'')
       = Some (''409 bad input'' @ [CHR 0x0A]) \<and> stderr pr' = PyNone"
proof -
  let ?w1 = "\<lparr>fs = [demo_generator \<mapsto> ''exit 1'', demo_path \<mapsto> []], procs = [], counter = 0\<rparr>"
  from demo_resolve [of failing] obtain pr1 params1 where
    r: "resolve (demo_server failing) (demo_request [''MAKE'']) demo_path
          (demo_world [(demo_generator, ''exit 1'')]) = Continue (pr1, params1) ?w1"
    and i: "inputs pr1 = []" by blast
  from resolve_Continue [OF r] have a: "''MAKE'' \<in> set (actions pr1)"
    by (simp add: demo_request_fields)
  obtain params where
    t: "retrieve_inputs (make_request 0 (demo_server failing)) (demo_server failing) pr1 params1 ?w1
          = Some (Ok (pr1\<lparr>inputs := []\<rparr>, params) ?w1)"
    using a i by (simp add: retrieve_inputs_def)
  let ?r = "shell (demo_server failing) (generator_path (demo_request [''MAKE''])) params True ?w1"
  have e: "exit_code ?r \<noteq> 0" and o: "out ?r \<noteq> []"
    and d: "decode_utf8 (out ?r) = Some (the (decode_utf8 (''409 bad input'' @ [CHR 0x0A])))"
    and c: "encode (demo_server failing) (the (decode_utf8 (''409 bad input'' @ [CHR 0x0A])))
              = Some (''409 bad input'' @ [CHR 0x0A])"
    by (simp_all add: demo_server_def failing_def char_of_def bit_Suc_0_iff)
  from failure_output_logged [OF demo_request_path _ _ r t refl e o d c]
  show ?thesis
    by (auto simp add: demo_request_fields)
qed

text \<open>
  C8, as it is worded, fails in the scenario of the specification: the generator
  exits with 1 after printing \<^verbatim>\<open>409 bad input\<close>; the log of the standard output is
  written, and no log of the standard error exists afterwards.
\<close>

theorem no_stderr_log_counterexample:
  "\<exists>pr' w'. handle_request (Suc 0) (demo_server failing) (demo_request [''MAKE''])
               (demo_world [(demo_generator, ''exit 1'')]) = Some (Ok pr' w') \<and>
     returncode pr' = 1 \<and>
     fs w' (log_path (demo_server failing) (APath demo_path) ''.stdout.log'') = Some (''409 bad input'' @ [CHR 0x0A]) \<and>
     fs w' (log_path (demo_server failing) (APath demo_path) ''.stderr.log'') = None"
  by (simp add: handle_request_Suc engine_defs demo_defs failing_def demo_request_fields
      demo_request_generator demo_request_path_tmp demo_request_path Let_def
      del: handle_request.simps)

section \<open>Exceptions that leave the engine\<close>

text \<open>
  C5 at an input where the source fails it. The generator script and the input
  script exist, and the input script exits with 1 having written to its standard
  error only. Line 469 then reads \<^verbatim>\<open>input_info.error_info\<close>, which was never
  assigned: \<^verbatim>\<open>handle_request\<close> raises \<^verbatim>\<open>AttributeError\<close> instead of returning with
  the status \<^verbatim>\<open>CONFLICT\<close>, and the placeholder it created at line 574 stays.
\<close>

theorem input_listing_failure_raises:
  "\<exists>w'. handle_request (Suc 0) (demo_server silent_failure) (demo_request [''MAKE''])
               (demo_world [(demo_generator, ''exit 0''), (demo_input_script, ''exit 1'')])
            = Some (Raise AttributeError w') \<and>
     fs w' demo_path = Some [] \<and> procs w' = [(demo_input_script, [])]"
  by (simp add: handle_request_Suc engine_defs demo_defs silent_failure_def
      demo_input_script_def demo_request_fields demo_request_generator
      demo_request_path_tmp demo_request_path Let_def del: handle_request.simps)

text \<open>
  C9 at an input where the source fails it. The generator script exists, there is
  no input script, and the generator exits with 0 without writing its temporary
  file. Line 617 calls \<^verbatim>\<open>stat\<close> on a file that is not there: \<^verbatim>\<open>handle_request\<close> raises
  \<^verbatim>\<open>FileNotFoundError\<close> after the generator has run.
\<close>

theorem missing_temp_file_raises:
  "\<exists>w'. handle_request (Suc 0) (demo_server idle) (demo_request [''MAKE''])
               (demo_world [(demo_generator, ''exit 0'')])
            = Some (Raise FileNotFoundError w') \<and>
     procs w' = [(demo_generator, [(''OUTDIR'', ''/cache/2020/01/01/test/gen/tmp''),
                                   (''OUTFILE'', ''202001010000_test.gen.txt''), (''INPUTKEYS'', [])])]"
  by (simp add: handle_request_Suc engine_defs demo_defs idle_def demo_request_fields demo_request_generator
      demo_request_path_tmp demo_request_path Let_def del: handle_request.simps)

section \<open>Inputs that failed\<close>

text \<open>
  C6 at an input where the source fails it. The input script of \<^verbatim>\<open>test.gen\<close> lists
  the inputs \<^verbatim>\<open>a\<close> and \<^verbatim>\<open>b\<close>. The first is in the cache. The generator of the second
  exits with 1, so the request made for it comes back with the status 409 and no
  artifact: only the empty placeholder stands at its path. The comment of line 286
  says that the path of a request is cleared when generation fails, and the test
  of line 597 relies on it, but the returns of lines 615 and 619 leave the path as
  it was. So \<^verbatim>\<open>b\<close> is not skipped: the generator of \<^verbatim>\<open>test.gen\<close> is started with
  \<^verbatim>\<open>INPUTKEYS=a,b\<close> and with \<^verbatim>\<open>b\<close> set to the path of the placeholder, and the
  request returns with \<^verbatim>\<open>b\<close> in its inputs.
\<close>

theorem failed_input_is_passed_on:
  "\<exists>pr' w'. handle_request (Suc (Suc 0)) (demo_server listing_two) (demo_request [''MAKE''])
               two_inputs_world = Some (Ok pr' w') \<and>
     status pr' = Some 200 \<and>
     inputs pr' = [(''a'', ''/cache/upstream/one/upstream.one_x.txt''),
                   (''b'', ''/cache/upstream/two/upstream.two_y.txt'')] \<and>
     fs w' upstream_two = Some [] \<and>
     last (procs w') = (demo_generator,
        [(''OUTDIR'', ''/cache/2020/01/01/test/gen/tmp''), (''OUTFILE'', ''202001010000_test.gen.txt''),
         (''INPUTKEYS'', ''a,b''),
         (''a'', ''/cache/upstream/one/upstream.one_x.txt''),
         (''b'', ''/cache/upstream/two/upstream.two_y.txt'')])"
  by (simp add: handle_request_Suc make_request_def ProductRequest_def get_time_dir_def
      get_product_dir_def uplus_def str_pathval_def two_inputs_world_def
      engine_defs demo_defs status_defs listing_two_def upstream_one_def
      upstream_two_def upstream_two_generator_def demo_input_script_def demo_request_fields demo_request_generator
      demo_request_path_tmp demo_request_path Let_def del: handle_request.simps)

section \<open>The request counter\<close>

text \<open>
  C10. Start in a world where \<^verbatim>\<open>ProductServer.counter\<close> is 0, as line 135 sets
  it. Then every request of every sequence of constructions has the \<^verbatim>\<open>sid\<close> 0 and
  the counter is still 0 after them; and whenever \<^verbatim>\<open>make_request\<close> comes back, with a
  request or with an exception and whatever requests it made for inputs on the
  way, the counter is still 0, so that the next request constructed has the
  \<^verbatim>\<open>sid\<close> 0 again.
\<close>

theorem counter_never_incremented:
  assumes "counter w = 0"
  shows "(\<forall>xs prs w'. construct_all srv xs w = (prs, w') \<longrightarrow>
            counter w' = 0 \<and> (\<forall>pr\<in>set prs. sid pr = 0))
       \<and> (\<forall>n info acts dirs res. make_request n srv info acts dirs w = Some res \<longrightarrow>
            counter (world_of res) = 0 \<and>
            (\<forall>info' acts' dirs'. sid (fst (ProductRequest srv info' acts' dirs' (world_of res))) = 0))"
proof -
  have a: "counter w' = 0 \<and> (\<forall>pr\<in>set prs. sid pr = 0)"
    if "construct_all srv xs w = (prs, w')" for xs prs w'
    using construct_all_counter [OF that] assms by simp
  have b: "counter (world_of res) = 0 \<and>
           (\<forall>info' acts' dirs'. sid (fst (ProductRequest srv info' acts' dirs' (world_of res))) = 0)"
    if m: "make_request n srv info acts dirs w = Some res" for n info acts dirs res
  proof -
    from m have "handle_request n srv (fst (ProductRequest srv info acts dirs w)) w = Some res"
      by (simp add: make_request_def ProductRequest_def Let_def)
    from handle_request_counter [OF this] assms have "counter (world_of res) = 0" by simp
    then show ?thesis by (simp add: ProductRequest_def Let_def uplus_def)
  qed
  from a b show ?thesis by blast
qed

theorem counter_never_incremented_witness:
  "map sid (fst (construct_all (demo_server idle)
       [(demo_info, [''MAKE''], []), (demo_info, [''DELETE''], [])] (demo_world []))) = [0, 0] \<and>
   counter (snd (construct_all (demo_server idle)
       [(demo_info, [''MAKE''], []), (demo_info, [''DELETE''], [])] (demo_world []))) = 0"
  using counter_never_incremented [of "demo_world []" "demo_server idle"]
  by (simp add: demo_world_def ProductRequest_def Let_def uplus_def)

end
